theory Spec2Isabelle
  imports Complex_Main "HOL-Library.Option_ord"
begin

section \<open>JavaScript values used by the services\<close>

text \<open>
  Strings are lists of characters. A value of type \<open>string | undefined\<close> is a
  \<open>string option\<close>, a value of type \<open>number | undefined\<close> that holds a page size or
  an offset is a \<open>nat option\<close> (the engine's pagination inputs are non-negative
  integers). A promise that may reject is a value of \<open>error + 'a\<close>, \<open>Inl\<close> being
  the rejection; \<open>await\<close> inside \<open>try\<close> is a case distinction on it.
\<close>

datatype error =
    TypeError
  | FetchFailed
  | JsonSyntaxError
  | ApiError nat

text \<open>Truthiness of \<open>string | undefined\<close>: \<open>undefined\<close> and the empty string are falsy.\<close>

definition truthy :: "string option \<Rightarrow> bool" where
  "truthy s = (case s of None \<Rightarrow> False | Some v \<Rightarrow> v \<noteq> [])"

text \<open>\<open>a || d\<close> on \<open>number | undefined\<close>: \<open>undefined\<close> and \<open>0\<close> are falsy.\<close>

definition or_num :: "nat option \<Rightarrow> nat \<Rightarrow> nat" where
  "or_num a d = (case a of None \<Rightarrow> d | Some n \<Rightarrow> if n = 0 then d else n)"

text \<open>\<open>a || d\<close> on \<open>string | undefined\<close>.\<close>

definition or_str :: "string option \<Rightarrow> string \<Rightarrow> string" where
  "or_str a d = (case a of None \<Rightarrow> d | Some v \<Rightarrow> if v = [] then d else v)"

text \<open>\<open>String.prototype.toLowerCase\<close>, on the ASCII letters.\<close>

definition lower_char :: "char \<Rightarrow> char" where
  "lower_char c =
     (let n = (of_char c :: nat) in if 65 \<le> n \<and> n \<le> 90 then char_of (n + 32) else c)"

definition toLowerCase :: "string \<Rightarrow> string" where
  "toLowerCase s = map lower_char s"

text \<open>\<open>String.prototype.startsWith\<close> and \<open>String.prototype.includes\<close>.\<close>

fun startsWith :: "string \<Rightarrow> string \<Rightarrow> bool" where
  "startsWith s [] = True"
| "startsWith [] (p # ps) = False"
| "startsWith (c # cs) (p # ps) = (c = p \<and> startsWith cs ps)"

fun includes_str :: "string \<Rightarrow> string \<Rightarrow> bool" where
  "includes_str [] sub = (sub = [])"
| "includes_str (c # cs) sub = (startsWith (c # cs) sub \<or> includes_str cs sub)"

text \<open>\<open>String.prototype.split\<close> with a one-character separator.\<close>

fun split :: "char \<Rightarrow> string \<Rightarrow> string list" where
  "split sep [] = [[]]"
| "split sep (c # cs) =
     (if c = sep then [] # split sep cs
      else (case split sep cs of [] \<Rightarrow> [[c]] | p # ps \<Rightarrow> (c # p) # ps))"

text \<open>\<open>String.prototype.padStart\<close> with a one-character pad string.\<close>

definition padStart :: "nat \<Rightarrow> char \<Rightarrow> string \<Rightarrow> string" where
  "padStart n c s = replicate (n - length s) c @ s"

text \<open>A template literal prints \<open>undefined\<close> as the word itself.\<close>

definition template :: "string option \<Rightarrow> string" where
  "template v = (case v of None \<Rightarrow> ''undefined'' | Some s \<Rightarrow> s)"

text \<open>\<open>Array.prototype.slice(start, end)\<close> for \<open>0 \<le> start \<le> end\<close>.\<close>

definition slice :: "nat \<Rightarrow> nat \<Rightarrow> 'a list \<Rightarrow> 'a list" where
  "slice start finish xs = take (finish - start) (drop start xs)"

section \<open>Historical archive client: date conversion\<close>

text \<open>
  \<open>SetlistFmService.convertDateFormat\<close>. The destructuring
  \<open>const [day, month, year] = setlistDate.split('-')\<close> leaves \<open>month\<close> and \<open>year\<close>
  \<open>undefined\<close> when the array is too short; \<open>month.padStart\<close> then throws a
  TypeError, while \<open>${year}\<close> prints the word \<open>undefined\<close>. \<open>day\<close> is always a
  string. The \<open>catch\<close> returns the argument as it is.
\<close>

definition convertDateFormat_try :: "string \<Rightarrow> error + string" where
  "convertDateFormat_try setlistDate =
     (case split CHR ''-'' setlistDate of
        [] \<Rightarrow> Inl TypeError
      | [day] \<Rightarrow> Inl TypeError
      | day # month # rest \<Rightarrow>
          Inr (template (case rest of [] \<Rightarrow> None | year # _ \<Rightarrow> Some year)
               @ ''-'' @ padStart 2 CHR ''0'' month
               @ ''-'' @ padStart 2 CHR ''0'' day))"

definition convertDateFormat :: "string \<Rightarrow> string" where
  "convertDateFormat setlistDate =
     (case convertDateFormat_try setlistDate of
        Inr converted \<Rightarrow> converted
      | Inl e \<Rightarrow> setlistDate)"

text \<open>The shape \<open>YYYY-MM-DD\<close>: ten characters, digits around two hyphens.\<close>

definition is_digit :: "char \<Rightarrow> bool" where
  "is_digit c = (let n = (of_char c :: nat) in 48 \<le> n \<and> n \<le> 57)"

definition iso_shape :: "string \<Rightarrow> bool" where
  "iso_shape s =
     (case s of
        [y1, y2, y3, y4, h1, m1, m2, h2, d1, d2] \<Rightarrow>
          is_digit y1 \<and> is_digit y2 \<and> is_digit y3 \<and> is_digit y4 \<and> h1 = CHR ''-''
          \<and> is_digit m1 \<and> is_digit m2 \<and> h2 = CHR ''-'' \<and> is_digit d1 \<and> is_digit d2
      | _ \<Rightarrow> False)"

section \<open>The canonical concert\<close>

text \<open>
  \<open>Concert\<close> is a row of the \<open>concerts\<close> table (shared/schema.ts); nullable columns
  are options, a timestamp is a number of milliseconds. The column \<open>id\<close> is named
  \<open>concert_id\<close> here. \<open>ConcertWithRating\<close> is \<open>Concert & {averageRating?, ...}\<close>; an
  absent property and a property holding \<open>undefined\<close> or \<open>null\<close> are both \<open>None\<close>.
  The provider transforms return loosely typed objects that carry further
  properties; they are kept in \<open>metadata\<close>.
\<close>

record Concert =
  concert_id :: string
  artist :: string
  venue :: string
  city :: string
  date :: string
  time :: string
  price :: string
  genre :: "string option"
  imageUrl :: "string option"
  ticketUrl :: "string option"
  description :: "string option"
  createdAt :: "int option"
  updatedAt :: "int option"

record TicketmasterMetadata =
  ticketmasterId :: string
  tm_venueId :: "string option"
  attractionId :: "string option"
  eventStatus :: string
  timezone :: string

record SetlistFmMetadata =
  setlistFmId :: string
  setlistFmUrl :: string
  artistMbid :: string
  sfm_venueId :: string
  setlist :: "string list"
  isHistorical :: bool
  lastUpdated :: string
  tourName :: "string option"
  concertInfo :: "string option"

datatype metadata =
    NoMetadata
  | Ticketmaster TicketmasterMetadata
  | SetlistFm SetlistFmMetadata

record ConcertWithRating = Concert +
  averageRating :: "rat option"
  performanceRating :: "rat option"
  soundRating :: "rat option"
  venueRating :: "rat option"
  valueRating :: "rat option"
  reviewCount :: "nat option"
  metadata :: metadata

section \<open>HTTP\<close>

text \<open>
  \<open>fetch\<close> either rejects or resolves to a response with a status; \<open>response.json()\<close>
  either rejects or resolves to the parsed body. A provider is a function from the
  request to this outcome. \<open>URLSearchParams\<close> is the list of its pairs.
\<close>

datatype 'a body = Unparseable | Parsed 'a

datatype 'a outcome = NetworkFailure | Response nat "'a body"

record request =
  url :: string
  params :: "(string \<times> string) list"
  headers :: "(string \<times> string) list"

definition ok :: "nat \<Rightarrow> bool" where
  "ok status = (200 \<le> status \<and> status \<le> 299)"

text \<open>\<open>String(n)\<close> for a non-negative integer.\<close>

fun String :: "nat \<Rightarrow> string" where
  "String n =
     (if n < 10 then [char_of (48 + n)]
      else String (n div 10) @ [char_of (48 + n mod 10)])"

declare String.simps [simp del]

text \<open>\<open>if (v) params.append(k, v)\<close>.\<close>

definition append_if :: "string \<Rightarrow> string option \<Rightarrow> (string \<times> string) list \<Rightarrow> (string \<times> string) list" where
  "append_if k v ps = (if truthy v then ps @ [(k, the v)] else ps)"

section \<open>Historical archive client (setlistFmService.ts)\<close>

record SetlistFmArtist =
  artist_mbid :: string
  artist_name :: string

record SetlistFmCity =
  city_name :: string
  city_state :: "string option"
  city_stateCode :: "string option"
  country_code :: "string option"

record SetlistFmVenue =
  venue_id :: string
  venue_name :: string
  venue_city :: SetlistFmCity

record SetlistFmSong =
  song_name :: "string option"

record SetlistFmSet =
  song :: "SetlistFmSong list option"

record SetlistFmSetlist =
  setlist_id :: string
  eventDate :: string
  setlist_lastUpdated :: string
  setlist_artist :: SetlistFmArtist
  setlist_venue :: SetlistFmVenue
  sets :: "SetlistFmSet list option"
  tour_name :: "string option"
  info :: "string option"
  setlist_url :: string

record SetlistFmSearchOptions =
  artistName :: "string option"
  so_artistMbid :: "string option"
  cityName :: "string option"
  so_countryCode :: "string option"
  so_date :: "string option"
  venueName :: "string option"
  so_venueId :: "string option"
  year :: "string option"
  state :: "string option"
  so_tourName :: "string option"
  p :: "nat option"

definition no_setlist_options :: SetlistFmSearchOptions where
  "no_setlist_options =
     \<lparr>artistName = None, so_artistMbid = None, cityName = None, so_countryCode = None,
      so_date = None, venueName = None, so_venueId = None, year = None, state = None,
      so_tourName = None, p = None\<rparr>"

definition setlists_request :: "string \<Rightarrow> SetlistFmSearchOptions \<Rightarrow> request" where
  "setlists_request apiKey options =
     \<lparr>url = ''https://api.setlist.fm/rest/1.0/search/setlists'',
      params =
        (let ps = append_if ''artistName'' (artistName options) [];
             ps = append_if ''artistMbid'' (so_artistMbid options) ps;
             ps = append_if ''cityName'' (cityName options) ps;
             ps = append_if ''countryCode'' (so_countryCode options) ps;
             ps = append_if ''date'' (so_date options) ps;
             ps = append_if ''venueName'' (venueName options) ps;
             ps = append_if ''venueId'' (so_venueId options) ps;
             ps = append_if ''year'' (year options) ps;
             ps = append_if ''state'' (state options) ps;
             ps = append_if ''tourName'' (so_tourName options) ps
         in if or_num (p options) 0 = 0 then ps
            else ps @ [(''p'', String (or_num (p options) 0))]),
      headers =
        [(''Accept'', ''application/json''), (''x-api-key'', apiKey),
         (''User-Agent'', ''ConcertCritic/1.0'')]\<rparr>"

text \<open>
  \<open>searchSetlists\<close>: the body of its \<open>try\<close>, then the function with its \<open>catch\<close>, which
  returns the empty array for every error. The parsed body is the value of the
  response's \<open>setlist\<close> property, \<open>None\<close> when it has none.
\<close>

definition searchSetlists_try ::
  "string \<Rightarrow> (request \<Rightarrow> SetlistFmSetlist list option outcome) \<Rightarrow> SetlistFmSearchOptions
   \<Rightarrow> error + SetlistFmSetlist list" where
  "searchSetlists_try apiKey fetch options =
     (if apiKey = [] then Inr []
      else
        (case fetch (setlists_request apiKey options) of
           NetworkFailure \<Rightarrow> Inl FetchFailed
         | Response status b \<Rightarrow>
             if ok status then
               (case b of
                  Unparseable \<Rightarrow> Inl JsonSyntaxError
                | Parsed data \<Rightarrow> Inr (case data of None \<Rightarrow> [] | Some found \<Rightarrow> found))
             else if status = 404 then Inr []
             else Inl (ApiError status)))"

definition searchSetlists ::
  "string \<Rightarrow> (request \<Rightarrow> SetlistFmSetlist list option outcome) \<Rightarrow> SetlistFmSearchOptions
   \<Rightarrow> error + SetlistFmSetlist list" where
  "searchSetlists apiKey fetch options =
     (case searchSetlists_try apiKey fetch options of
        Inr found \<Rightarrow> Inr found
      | Inl e \<Rightarrow> Inr [])"

text \<open>\<open>extractSetlist\<close>: the names of all songs of all sets, in order, nameless ones dropped.\<close>

definition extractSetlist :: "SetlistFmSetlist \<Rightarrow> string list" where
  "extractSetlist sl =
     (case sets sl of
        None \<Rightarrow> []
      | Some ss \<Rightarrow>
          concat (map (\<lambda>s. case song s of
                               None \<Rightarrow> []
                             | Some songs \<Rightarrow>
                                 map (\<lambda>sg. the (song_name sg))
                                   (filter (\<lambda>sg. truthy (song_name sg)) songs)) ss))"

text \<open>\<open>transformSetlist\<close>.\<close>

definition cityString :: "SetlistFmCity \<Rightarrow> string" where
  "cityString c =
     (let s = city_name c;
          s = (if truthy (city_stateCode c) then s @ '', '' @ the (city_stateCode c)
               else if truthy (city_state c) then s @ '', '' @ the (city_state c)
               else s)
      in if truthy (country_code c) \<and> country_code c \<noteq> Some ''US''
         then s @ '', '' @ the (country_code c) else s)"

definition transformSetlist :: "SetlistFmSetlist \<Rightarrow> ConcertWithRating" where
  "transformSetlist sl =
     (let v = setlist_venue sl;
          setlistSongs = extractSetlist sl;
          isoDate = convertDateFormat (eventDate sl);
          d = artist_name (setlist_artist sl) @ '' performed at '' @ venue_name v
              @ '' in '' @ cityString (venue_city v);
          d = (if truthy (tour_name sl) then d @ '' ('' @ the (tour_name sl) @ '')'' else d);
          d = (if length setlistSongs > 0
               then d @ ''. Setlist included '' @ String (length setlistSongs) @ '' songs.''
               else d)
      in \<lparr>concert_id = ''setlistfm_'' @ setlist_id sl,
          artist = artist_name (setlist_artist sl),
          venue = venue_name v,
          city = cityString (venue_city v),
          date = isoDate,
          time = ''Historical'',
          price = ''Historical'',
          genre = Some ''Music'',
          imageUrl = None,
          ticketUrl = Some (setlist_url sl),
          description = Some d,
          createdAt = None,
          updatedAt = None,
          averageRating = None,
          performanceRating = None,
          soundRating = None,
          venueRating = None,
          valueRating = None,
          reviewCount = None,
          metadata = SetlistFm
            \<lparr>setlistFmId = setlist_id sl,
             setlistFmUrl = setlist_url sl,
             artistMbid = artist_mbid (setlist_artist sl),
             sfm_venueId = venue_id v,
             setlist = setlistSongs,
             isHistorical = True,
             lastUpdated = setlist_lastUpdated sl,
             tourName = (if truthy (tour_name sl) then tour_name sl else None),
             concertInfo = (if truthy (info sl) then info sl else None)\<rparr>\<rparr>)"

section \<open>Live event client (ticketmasterService.ts)\<close>

text \<open>
  The parts of a \<open>TicketmasterEvent\<close> that \<open>transformEvent\<close> reads. An optional
  array (\<open>images\<close>, \<open>classifications\<close>, \<open>_embedded.venues\<close>, \<open>priceRanges\<close>) that is
  absent is the empty list: the code reads only its first element or tests it for
  emptiness. The bounds of a price range are kept as JavaScript prints them.
\<close>

record Image =
  ratio :: string
  image_url :: string
  width :: nat
  height :: nat

record Classification =
  genre_name :: "string option"
  subGenre_name :: "string option"

record TmVenue =
  tmv_id :: "string option"
  tmv_name :: "string option"
  tmv_city_name :: string
  tmv_stateCode :: "string option"
  tmv_countryCode :: string

record Attraction =
  attraction_id :: "string option"
  attraction_name :: "string option"
  attraction_images :: "Image list"
  attraction_classifications :: "Classification list"

record PriceRange =
  price_min :: string
  price_max :: string

record TicketmasterEvent =
  event_id :: string
  event_name :: string
  event_url :: string
  images :: "Image list"
  localDate :: string
  localTime :: "string option"
  status_code :: string
  event_timezone :: string
  classifications :: "Classification list"
  venues :: "TmVenue list"
  attractions :: "Attraction list"
  priceRanges :: "PriceRange list"

record TicketmasterSearchOptions =
  keyword :: "string option"
  tm_city :: "string option"
  stateCode :: "string option"
  countryCode :: "string option"
  classificationName :: "string option"
  tm_size :: "nat option"
  page :: "nat option"
  tm_sort :: "string option"
  startDateTime :: "string option"
  endDateTime :: "string option"
  radius :: "nat option"
  unit :: "string option"

definition no_search_options :: TicketmasterSearchOptions where
  "no_search_options =
     \<lparr>keyword = None, tm_city = None, stateCode = None, countryCode = None,
      classificationName = None, tm_size = None, page = None, tm_sort = None,
      startDateTime = None, endDateTime = None, radius = None, unit = None\<rparr>"

definition events_request :: "string \<Rightarrow> TicketmasterSearchOptions \<Rightarrow> request" where
  "events_request consumerKey options =
     \<lparr>url = ''https://app.ticketmaster.com/discovery/v2/events.json'',
      params =
        (let ps = [(''apikey'', consumerKey),
                   (''classificationName'', ''music''),
                   (''size'', String (or_num (tm_size options) 50)),
                   (''page'', String (or_num (page options) 0)),
                   (''sort'', or_str (tm_sort options) ''date,asc'')];
             ps = append_if ''keyword'' (keyword options) ps;
             ps = append_if ''city'' (tm_city options) ps;
             ps = append_if ''stateCode'' (stateCode options) ps;
             ps = append_if ''countryCode'' (countryCode options) ps;
             ps = append_if ''classificationName'' (classificationName options) ps;
             ps = append_if ''startDateTime'' (startDateTime options) ps;
             ps = append_if ''endDateTime'' (endDateTime options) ps;
             ps = (if or_num (radius options) 0 = 0 then ps
                   else ps @ [(''radius'', String (or_num (radius options) 0))])
         in append_if ''unit'' (unit options) ps),
      headers = []\<rparr>"

text \<open>
  \<open>searchEvents\<close>. Its \<open>catch\<close> logs and throws the error again, so the function is
  the body of its \<open>try\<close>. Every response that is not \<open>ok\<close> throws: the status is not
  looked at. The parsed body is the value of \<open>data._embedded?.events\<close>.
\<close>

definition searchEvents ::
  "string \<Rightarrow> (request \<Rightarrow> TicketmasterEvent list option outcome) \<Rightarrow> TicketmasterSearchOptions
   \<Rightarrow> error + TicketmasterEvent list" where
  "searchEvents consumerKey fetch options =
     (if consumerKey = [] then Inr []
      else
        (case fetch (events_request consumerKey options) of
           NetworkFailure \<Rightarrow> Inl FetchFailed
         | Response status b \<Rightarrow>
             if ok status then
               (case b of
                  Unparseable \<Rightarrow> Inl JsonSyntaxError
                | Parsed data \<Rightarrow> Inr (case data of None \<Rightarrow> [] | Some events \<Rightarrow> events))
             else Inl (ApiError status)))"

text \<open>
  \<open>getEvent\<close>, the sibling of \<open>searchEvents\<close> for one event: here a 404 is not an
  error.
\<close>

definition event_request :: "string \<Rightarrow> string \<Rightarrow> request" where
  "event_request consumerKey eventId =
     \<lparr>url = ''https://app.ticketmaster.com/discovery/v2/events/'' @ eventId @ ''.json'',
      params = [(''apikey'', consumerKey)],
      headers = []\<rparr>"

definition getEvent ::
  "string \<Rightarrow> (request \<Rightarrow> TicketmasterEvent outcome) \<Rightarrow> string
   \<Rightarrow> error + TicketmasterEvent option" where
  "getEvent consumerKey fetch eventId =
     (case fetch (event_request consumerKey eventId) of
        NetworkFailure \<Rightarrow> Inl FetchFailed
      | Response status b \<Rightarrow>
          if ok status then
            (case b of Unparseable \<Rightarrow> Inl JsonSyntaxError | Parsed event \<Rightarrow> Inr (Some event))
          else if status = 404 then Inr None
          else Inl (ApiError status))"

text \<open>
  \<open>getBestImage\<close>: the first image of ratio \<open>16_9\<close>, else the first of the images
  sorted by falling area (the sort is stable), an empty url counting as none.
\<close>

definition getBestImage :: "Image list \<Rightarrow> string option" where
  "getBestImage imgs =
     (if imgs = [] then None
      else
        (case find (\<lambda>img. ratio img = ''16_9'') imgs of
           Some ratio16x9 \<Rightarrow> Some (image_url ratio16x9)
         | None \<Rightarrow>
             (case sort_key (\<lambda>img. - int (width img * height img)) imgs of
                [] \<Rightarrow> None
              | largest # _ \<Rightarrow>
                  if image_url largest = [] then None else Some (image_url largest))))"

text \<open>\<open>a || b\<close> on \<open>string | null\<close>.\<close>

definition or_else :: "string option \<Rightarrow> string option \<Rightarrow> string option" where
  "or_else a b = (if truthy a then a else b)"

definition first_of :: "'a list \<Rightarrow> 'a option" where
  "first_of xs = (case xs of [] \<Rightarrow> None | x # _ \<Rightarrow> Some x)"

text \<open>\<open>transformEvent\<close>.\<close>

definition transformEvent :: "TicketmasterEvent \<Rightarrow> ConcertWithRating" where
  "transformEvent event =
     (let venue0 = first_of (venues event);
          attraction = first_of (attractions event);
          priceRange = first_of (priceRanges event);
          classification =
            (case first_of (classifications event) of
               Some c \<Rightarrow> Some c
             | None \<Rightarrow>
                 (case attraction of
                    None \<Rightarrow> None
                  | Some a \<Rightarrow> first_of (attraction_classifications a)));
          image =
            or_else (getBestImage (images event))
              (case attraction of None \<Rightarrow> None | Some a \<Rightarrow> getBestImage (attraction_images a));
          who = or_str (case attraction of None \<Rightarrow> None | Some a \<Rightarrow> attraction_name a)
                  (event_name event);
          place = or_str (case venue0 of None \<Rightarrow> None | Some v \<Rightarrow> tmv_name v) ''TBA''
      in \<lparr>concert_id = ''tm_'' @ event_id event,
          artist = who,
          venue = place,
          city =
            (case venue0 of
               None \<Rightarrow> ''TBA''
             | Some v \<Rightarrow> tmv_city_name v @ '', '' @ or_str (tmv_stateCode v) (tmv_countryCode v)),
          date = localDate event,
          time = or_str (localTime event) ''TBA'',
          price =
            (case priceRange of
               None \<Rightarrow> ''TBA''
             | Some r \<Rightarrow> ''$'' @ price_min r @ ''-$'' @ price_max r),
          genre =
            Some (or_str
                    (or_else
                       (case classification of None \<Rightarrow> None | Some c \<Rightarrow> genre_name c)
                       (case classification of None \<Rightarrow> None | Some c \<Rightarrow> subGenre_name c))
                    ''Music''),
          imageUrl = image,
          ticketUrl = Some (event_url event),
          description =
            Some (who @ '' at '' @ place
                  @ (case venue0 of None \<Rightarrow> [] | Some v \<Rightarrow> '' in '' @ tmv_city_name v)),
          createdAt = None,
          updatedAt = None,
          averageRating = None,
          performanceRating = None,
          soundRating = None,
          venueRating = None,
          valueRating = None,
          reviewCount = None,
          metadata = Ticketmaster
            \<lparr>ticketmasterId = event_id event,
             tm_venueId = (case venue0 of None \<Rightarrow> None | Some v \<Rightarrow> tmv_id v),
             attractionId = (case attraction of None \<Rightarrow> None | Some a \<Rightarrow> attraction_id a),
             eventStatus = status_code event,
             timezone = event_timezone event\<rparr>\<rparr>)"

section \<open>The persisted catalog (storage.ts, getConcerts)\<close>

text \<open>
  The database holds the \<open>concerts\<close> and the \<open>reviews\<close> tables. Of a review the query
  reads the concert it belongs to and its five ratings, all \<open>NOT NULL\<close> integers.
\<close>

record Review =
  review_concertId :: string
  review_overallRating :: int
  review_performanceRating :: int
  review_soundRating :: int
  review_venueRating :: int
  review_valueRating :: int

record database =
  concerts :: "Concert list"
  reviews :: "Review list"

record QueryOptions =
  search :: "string option"
  q_genre :: "string option"
  q_city :: "string option"
  limit :: "nat option"
  offset :: "nat option"
  includeTicketmaster :: bool
  includeHistorical :: bool
  startDate :: "string option"
  endDate :: "string option"

definition no_options :: QueryOptions where
  "no_options =
     \<lparr>search = None, q_genre = None, q_city = None, limit = None, offset = None,
      includeTicketmaster = False, includeHistorical = False,
      startDate = None, endDate = None\<rparr>"

text \<open>
  SQL \<open>ILIKE\<close>: \<open>%\<close> matches any sequence, \<open>_\<close> any one character, a backslash
  makes the next character literal; letters are compared without case. The patterns
  of \<open>getConcerts\<close> end in \<open>%\<close>, so none ends in a lone backslash.
\<close>

datatype like_token = AnySequence | AnyChar | Literal char

fun like_tokens :: "string \<Rightarrow> like_token list" where
  "like_tokens [] = []"
| "like_tokens [c] =
     (if c = CHR ''%'' then [AnySequence] else if c = CHR ''_'' then [AnyChar] else [Literal c])"
| "like_tokens (c # d # cs) =
     (if c = CHR ''%'' then AnySequence # like_tokens (d # cs)
      else if c = CHR ''_'' then AnyChar # like_tokens (d # cs)
      else if c = CHR 0x5C then Literal d # like_tokens cs
      else Literal c # like_tokens (d # cs))"

fun like_match :: "like_token list \<Rightarrow> string \<Rightarrow> bool" where
  "like_match [] s = (s = [])"
| "like_match (AnySequence # ts) [] = like_match ts []"
| "like_match (AnySequence # ts) (c # cs) =
     (like_match ts (c # cs) \<or> like_match (AnySequence # ts) cs)"
| "like_match (AnyChar # ts) [] = False"
| "like_match (AnyChar # ts) (c # cs) = like_match ts cs"
| "like_match (Literal l # ts) [] = False"
| "like_match (Literal l # ts) (c # cs) = (l = c \<and> like_match ts cs)"

definition ilike :: "string \<Rightarrow> string \<Rightarrow> bool" where
  "ilike column pattern = like_match (like_tokens (toLowerCase pattern)) (toLowerCase column)"

text \<open>The conditions pushed for \<open>search\<close>, \<open>genre\<close> and \<open>city\<close>, joined by \<open>and\<close>.\<close>

definition where_clause :: "QueryOptions \<Rightarrow> Concert \<Rightarrow> bool" where
  "where_clause options c =
     ((if truthy (search options)
       then ilike (artist c) (''%'' @ the (search options) @ ''%'')
            \<or> ilike (venue c) (''%'' @ the (search options) @ ''%'')
            \<or> ilike (city c) (''%'' @ the (search options) @ ''%'')
       else True)
      \<and> (if truthy (q_genre options) then genre c = q_genre options else True)
      \<and> (if truthy (q_city options)
         then ilike (city c) (''%'' @ the (q_city options) @ ''%'')
         else True))"

text \<open>\<open>avg\<close> over the joined reviews: \<open>NULL\<close> when there is none.\<close>

definition avg :: "int list \<Rightarrow> rat option" where
  "avg xs = (if xs = [] then None else Some (of_int (sum_list xs) / of_nat (length xs)))"

text \<open>
  One row of the grouped left join, mapped as the \<open>result.map\<close> of \<open>getConcerts\<close>
  does. The driver hands an average over as a string, which is truthy whenever it
  is not \<open>NULL\<close>; \<open>Number\<close> of it is kept exact here.
\<close>

definition with_rating :: "Review list \<Rightarrow> Concert \<Rightarrow> ConcertWithRating" where
  "with_rating rs c =
     (let joined = filter (\<lambda>r. review_concertId r = concert_id c) rs
      in \<lparr>concert_id = concert_id c, artist = artist c, venue = venue c, city = city c,
          date = date c, time = time c, price = price c, genre = genre c,
          imageUrl = imageUrl c, ticketUrl = ticketUrl c, description = description c,
          createdAt = createdAt c, updatedAt = updatedAt c,
          averageRating = avg (map review_overallRating joined),
          performanceRating = avg (map review_performanceRating joined),
          soundRating = avg (map review_soundRating joined),
          venueRating = avg (map review_venueRating joined),
          valueRating = avg (map review_valueRating joined),
          reviewCount = Some (length joined),
          metadata = NoMetadata\<rparr>)"

text \<open>
  \<open>getConcerts\<close>: \<open>WHERE\<close>, \<open>ORDER BY created_at DESC\<close> (\<open>NULL\<close> first, rows of equal
  time in table order), \<open>OFFSET\<close>, \<open>LIMIT\<close>. The defaults 20 and 0 of the
  destructuring apply to \<open>undefined\<close> only. The query is taken to succeed.
\<close>

definition getConcerts :: "database \<Rightarrow> QueryOptions \<Rightarrow> ConcertWithRating list" where
  "getConcerts d options =
     (let lim = (case limit options of None \<Rightarrow> 20 | Some n \<Rightarrow> n);
          off = (case offset options of None \<Rightarrow> 0 | Some n \<Rightarrow> n);
          rows = filter (where_clause options) (concerts d);
          ordered = sort_key (\<lambda>c. map_option uminus (createdAt c)) rows
      in map (with_rating (reviews d)) (take lim (drop off ordered)))"

section \<open>The aggregation engine (storage.ts, getConcertsWithHistorical)\<close>

text \<open>
  What a call depends on besides its argument: the database, the two providers with
  their credentials, and the clock read by \<open>new Date()\<close>, taken to show one time
  during a call.
\<close>

record world =
  db :: database
  consumerKey :: string
  ticketmaster :: "request \<Rightarrow> TicketmasterEvent list option outcome"
  apiKey :: string
  setlistfm :: "request \<Rightarrow> SetlistFmSetlist list option outcome"
  now :: int

text \<open>\<open>searchTicketmasterEvents\<close> and \<open>searchSetlistFmEvents\<close>: both catch every error.\<close>

definition searchTicketmasterEvents ::
  "world \<Rightarrow> TicketmasterSearchOptions \<Rightarrow> error + ConcertWithRating list" where
  "searchTicketmasterEvents w options =
     (case searchEvents (consumerKey w) (ticketmaster w) options of
        Inr events \<Rightarrow> Inr (map transformEvent events)
      | Inl e \<Rightarrow> Inr [])"

definition searchSetlistFmEvents ::
  "world \<Rightarrow> SetlistFmSearchOptions \<Rightarrow> error + ConcertWithRating list" where
  "searchSetlistFmEvents w options =
     (case searchSetlists (apiKey w) (setlistfm w) options of
        Inr setlists \<Rightarrow> Inr (map transformSetlist setlists)
      | Inl e \<Rightarrow> Inr [])"

text \<open>The options each provider is called with.\<close>

definition tmOptions :: "QueryOptions \<Rightarrow> TicketmasterSearchOptions" where
  "tmOptions options =
     \<lparr>keyword = (if truthy (search options) then search options else None),
      tm_city = (if truthy (q_city options) then q_city options else None),
      stateCode = None,
      countryCode = None,
      classificationName = (if truthy (q_genre options) then q_genre options else None),
      tm_size = Some (or_num (limit options) 20),
      page = Some (or_num (offset options) 0 div or_num (limit options) 20),
      tm_sort = None,
      startDateTime =
        (if truthy (startDate options) then Some (the (startDate options) @ ''T00:00:00Z'')
         else None),
      endDateTime =
        (if truthy (endDate options) then Some (the (endDate options) @ ''T23:59:59Z'')
         else None),
      radius = None,
      unit = None\<rparr>"

definition sfmOptions :: "QueryOptions \<Rightarrow> SetlistFmSearchOptions" where
  "sfmOptions options =
     \<lparr>artistName = (if truthy (search options) then search options else None),
      so_artistMbid = None,
      cityName = (if truthy (q_city options) then q_city options else None),
      so_countryCode = None, so_date = None, venueName = None, so_venueId = None,
      year = None, state = None, so_tourName = None,
      p = Some (or_num (offset options) 0 div or_num (limit options) 20 + 1)\<rparr>"

text \<open>
  \<open>event => ({...event, createdAt: new Date(), updatedAt: new Date(),
  averageRating: undefined, ..., reviewCount: 0})\<close>.
\<close>

definition external :: "int \<Rightarrow> ConcertWithRating \<Rightarrow> ConcertWithRating" where
  "external t event =
     event\<lparr>createdAt := Some t, updatedAt := Some t,
           averageRating := None, performanceRating := None, soundRating := None,
           venueRating := None, valueRating := None, reviewCount := Some 0\<rparr>"

text \<open>
  The merge loop \<open>for (const c of cs) if (!allConcertIds.has(c.id)) { push; add }\<close> on
  the pair of \<open>combinedConcerts\<close> and \<open>allConcertIds\<close>.
\<close>

fun add_unseen ::
  "ConcertWithRating list \<Rightarrow> ConcertWithRating list \<times> string set
   \<Rightarrow> ConcertWithRating list \<times> string set" where
  "add_unseen [] (combinedConcerts, allConcertIds) = (combinedConcerts, allConcertIds)"
| "add_unseen (c # cs) (combinedConcerts, allConcertIds) =
     (if concert_id c \<in> allConcertIds then add_unseen cs (combinedConcerts, allConcertIds)
      else add_unseen cs (combinedConcerts @ [c], insert (concert_id c) allConcertIds))"

definition add_ticketmaster ::
  "world \<Rightarrow> QueryOptions \<Rightarrow> ConcertWithRating list \<times> string set
   \<Rightarrow> error + ConcertWithRating list \<times> string set" where
  "add_ticketmaster w options st =
     (if includeTicketmaster options then
        (case searchTicketmasterEvents w (tmOptions options) of
           Inl e \<Rightarrow> Inl e
         | Inr tmEvents \<Rightarrow> Inr (add_unseen (map (external (now w)) tmEvents) st))
      else Inr st)"

definition add_historical ::
  "world \<Rightarrow> QueryOptions \<Rightarrow> ConcertWithRating list \<times> string set
   \<Rightarrow> error + ConcertWithRating list \<times> string set" where
  "add_historical w options st =
     (if includeHistorical options then
        (case searchSetlistFmEvents w (sfmOptions options) of
           Inl e \<Rightarrow> Inl e
         | Inr sfmEvents \<Rightarrow> Inr (add_unseen (map (external (now w)) sfmEvents) st))
      else Inr st)"

text \<open>The filters applied to the combined list, and the final \<open>slice\<close>.\<close>

definition matches_search :: "string \<Rightarrow> ConcertWithRating \<Rightarrow> bool" where
  "matches_search searchLower concert =
     (includes_str (toLowerCase (artist concert)) searchLower
      \<or> includes_str (toLowerCase (venue concert)) searchLower
      \<or> includes_str (toLowerCase (city concert)) searchLower)"

definition matches_genre :: "string \<Rightarrow> ConcertWithRating \<Rightarrow> bool" where
  "matches_genre genreLower concert =
     (case genre concert of
        None \<Rightarrow> False
      | Some g \<Rightarrow> includes_str (toLowerCase g) genreLower)"

definition filtered :: "QueryOptions \<Rightarrow> ConcertWithRating list \<Rightarrow> ConcertWithRating list" where
  "filtered options combinedConcerts =
     (let filteredConcerts =
            (if truthy (search options)
             then filter (matches_search (toLowerCase (the (search options)))) combinedConcerts
             else combinedConcerts)
      in if truthy (q_genre options)
         then filter (matches_genre (toLowerCase (the (q_genre options)))) filteredConcerts
         else filteredConcerts)"

definition paginated :: "QueryOptions \<Rightarrow> ConcertWithRating list \<Rightarrow> ConcertWithRating list" where
  "paginated options filteredConcerts =
     (let startIndex = or_num (offset options) 0;
          endIndex = startIndex + or_num (limit options) 50
      in slice startIndex endIndex filteredConcerts)"

text \<open>
  The body of the \<open>try\<close> of \<open>getConcertsWithHistorical\<close>, and the function with its
  \<open>catch\<close>, which falls back to \<open>getConcerts\<close>.
\<close>

definition getConcertsWithHistorical_try ::
  "world \<Rightarrow> QueryOptions \<Rightarrow> error + ConcertWithRating list" where
  "getConcertsWithHistorical_try w options =
     (let dbConcerts = getConcerts (db w) options
      in case add_ticketmaster w options (dbConcerts, set (map concert_id dbConcerts)) of
           Inl e \<Rightarrow> Inl e
         | Inr st \<Rightarrow>
             (case add_historical w options st of
                Inl e \<Rightarrow> Inl e
              | Inr (combinedConcerts, allConcertIds) \<Rightarrow>
                  Inr (paginated options (filtered options combinedConcerts))))"

definition getConcertsWithHistorical ::
  "world \<Rightarrow> QueryOptions \<Rightarrow> error + ConcertWithRating list" where
  "getConcertsWithHistorical w options =
     (case getConcertsWithHistorical_try w options of
        Inr result \<Rightarrow> Inr result
      | Inl e \<Rightarrow> Inr (getConcerts (db w) options))"

section \<open>The engine's result in closed form\<close>

text \<open>
  What each provider contributes to a call, once the \<open>catch\<close> clauses are taken into
  account, and the combined list before filtering. The lemma \<open>query_closed_form\<close>
  below derives them from \<open>getConcertsWithHistorical\<close>.
\<close>

definition live_events :: "world \<Rightarrow> QueryOptions \<Rightarrow> ConcertWithRating list" where
  "live_events w options =
     (if includeTicketmaster options then
        (case searchEvents (consumerKey w) (ticketmaster w) (tmOptions options) of
           Inr events \<Rightarrow> map (external (now w)) (map transformEvent events)
         | Inl e \<Rightarrow> [])
      else [])"

definition historical_events :: "world \<Rightarrow> QueryOptions \<Rightarrow> ConcertWithRating list" where
  "historical_events w options =
     (if includeHistorical options then
        (case searchSetlists_try (apiKey w) (setlistfm w) (sfmOptions options) of
           Inr setlists \<Rightarrow> map (external (now w)) (map transformSetlist setlists)
         | Inl e \<Rightarrow> [])
      else [])"

definition local_ids :: "world \<Rightarrow> QueryOptions \<Rightarrow> string set" where
  "local_ids w options = concert_id ` set (getConcerts (db w) options)"

definition combined :: "world \<Rightarrow> QueryOptions \<Rightarrow> ConcertWithRating list" where
  "combined w options =
     fst (add_unseen (historical_events w options)
            (add_unseen (live_events w options)
               (getConcerts (db w) options, local_ids w options)))"

text \<open>
  The records of a list that the merge loop appends, given the ids seen so far: the
  first record of each id not yet seen.
\<close>

fun unseen :: "string set \<Rightarrow> ConcertWithRating list \<Rightarrow> ConcertWithRating list" where
  "unseen ids [] = []"
| "unseen ids (c # cs) =
     (if concert_id c \<in> ids then unseen ids cs
      else c # unseen (insert (concert_id c) ids) cs)"

text \<open>A record with its two timestamps erased, to compare records up to them.\<close>

definition untimed :: "ConcertWithRating \<Rightarrow> ConcertWithRating" where
  "untimed c = c\<lparr>createdAt := None, updatedAt := None\<rparr>"

text \<open>
  Two records agree up to provider timestamps: equal when the id is one of the
  given local ids, equal up to \<open>createdAt\<close> and \<open>updatedAt\<close> otherwise.
\<close>

definition same_entry :: "string set \<Rightarrow> ConcertWithRating \<Rightarrow> ConcertWithRating \<Rightarrow> bool" where
  "same_entry ids a b = (if concert_id a \<in> ids then a = b else untimed a = untimed b)"

text \<open>A concert has a review attached.\<close>

definition has_review :: "database \<Rightarrow> string \<Rightarrow> bool" where
  "has_review d i = (filter (\<lambda>r. review_concertId r = i) (reviews d) \<noteq> [])"

section \<open>Example data\<close>

text \<open>
  A concert with two reviews and an older one with none; a live event with native id
  \<open>123\<close>, a second one, and a catalog record created for the first when it was
  reviewed; a world whose live provider gives one answer to every request and whose
  historical provider has no key.
\<close>

definition midnight :: Concert where
  "midnight =
     \<lparr>concert_id = ''c1'', artist = ''The Midnight'', venue = ''Red Rocks'',
      city = ''Morrison, CO'', date = ''2024-06-01'', time = ''20:00'', price = ''$50'',
      genre = Some ''Synthwave'', imageUrl = None, ticketUrl = None, description = None,
      createdAt = Some 2000, updatedAt = Some 2000\<rparr>"

definition daylight :: Concert where
  "daylight =
     \<lparr>concert_id = ''c2'', artist = ''Daylight'', venue = ''The Roxy'',
      city = ''Los Angeles, CA'', date = ''2023-02-11'', time = ''19:00'', price = ''$30'',
      genre = Some ''Rock'', imageUrl = None, ticketUrl = None, description = None,
      createdAt = Some 1000, updatedAt = Some 1000\<rparr>"

definition midnight_reviews :: "Review list" where
  "midnight_reviews =
     [\<lparr>review_concertId = ''c1'', review_overallRating = 5, review_performanceRating = 5,
       review_soundRating = 4, review_venueRating = 4, review_valueRating = 5\<rparr>,
      \<lparr>review_concertId = ''c1'', review_overallRating = 4, review_performanceRating = 3,
       review_soundRating = 4, review_venueRating = 5, review_valueRating = 4\<rparr>]"

definition event123 :: TicketmasterEvent where
  "event123 =
     \<lparr>event_id = ''123'', event_name = ''Gunship'', event_url = ''https://tm.example/123'',
      images = [], localDate = ''2025-01-01'', localTime = None, status_code = ''onsale'',
      event_timezone = ''UTC'', classifications = [], venues = [], attractions = [],
      priceRanges = []\<rparr>"

definition gunship_reviewed :: Concert where
  "gunship_reviewed =
     \<lparr>concert_id = ''tm_123'', artist = ''Gunship'', venue = ''TBA'',
      city = ''TBA'', date = ''2025-01-01'', time = ''TBA'', price = ''TBA'',
      genre = Some ''Music'', imageUrl = None, ticketUrl = None, description = None,
      createdAt = Some 3000, updatedAt = Some 3000\<rparr>"

definition event456 :: TicketmasterEvent where
  "event456 = event123\<lparr>event_id := ''456'', event_name := ''Carpenter Brut''\<rparr>"

definition with_upsert :: database where
  "with_upsert = \<lparr>concerts = [midnight, gunship_reviewed], reviews = midnight_reviews\<rparr>"

definition one_concert :: database where
  "one_concert = \<lparr>concerts = [midnight], reviews = midnight_reviews\<rparr>"

definition two_concerts :: database where
  "two_concerts = \<lparr>concerts = [midnight, daylight], reviews = midnight_reviews\<rparr>"

definition live_world :: "database \<Rightarrow> TicketmasterEvent list option outcome \<Rightarrow> int \<Rightarrow> world" where
  "live_world d answer t =
     \<lparr>db = d, consumerKey = ''key'', ticketmaster = (\<lambda>r. answer),
      apiKey = [], setlistfm = (\<lambda>r. NetworkFailure), now = t\<rparr>"

definition live_only :: QueryOptions where
  "live_only = no_options\<lparr>includeTicketmaster := True\<rparr>"

section \<open>Properties of the date conversion\<close>

lemma split_no_sep: "sep \<notin> set a \<Longrightarrow> split sep a = [a]"
  by (induction a) auto

lemma split_append_sep:
  "sep \<notin> set a \<Longrightarrow> split sep (a @ sep # rest) = a # split sep rest"
  by (induction a) auto

lemma split_three:
  assumes "sep \<notin> set a" "sep \<notin> set b" "sep \<notin> set c"
  shows "split sep (a @ sep # b @ sep # c) = [a, b, c]"
  using assms by (simp add: split_append_sep split_no_sep)

lemma digit_not_hyphen: "is_digit c \<Longrightarrow> c \<noteq> CHR ''-''"
  by (auto simp: is_digit_def)

lemma digits_no_hyphen: "list_all is_digit s \<Longrightarrow> CHR ''-'' \<notin> set s"
  by (induction s) (auto dest: digit_not_hyphen)

lemma convertDateFormat_dmy:
  assumes "CHR ''-'' \<notin> set d" "CHR ''-'' \<notin> set m" "CHR ''-'' \<notin> set y"
  shows "convertDateFormat (d @ ''-'' @ m @ ''-'' @ y)
         = y @ ''-'' @ padStart 2 CHR ''0'' m @ ''-'' @ padStart 2 CHR ''0'' d"
  using split_three [OF assms]
  by (simp add: convertDateFormat_def convertDateFormat_try_def template_def)

lemma padStart_two_digits:
  assumes "list_all is_digit s" "1 \<le> length s" "length s \<le> 2"
  shows "\<exists>a b. padStart 2 CHR ''0'' s = [a, b] \<and> is_digit a \<and> is_digit b"
proof (cases s)
  case Nil
  with assms show ?thesis by simp
next
  case (Cons a t)
  show ?thesis
  proof (cases t)
    case Nil
    with Cons assms show ?thesis
      by (simp add: padStart_def is_digit_def)
  next
    case (Cons b u)
    with \<open>s = a # t\<close> assms show ?thesis
      by (simp add: padStart_def)
  qed
qed

lemma four_digits:
  assumes "list_all is_digit y" "length y = 4"
  shows "\<exists>a b c d. y = [a, b, c, d] \<and> is_digit a \<and> is_digit b \<and> is_digit c \<and> is_digit d"
proof -
  from assms(2) obtain a b c d where "y = [a, b, c, d]"
    by (auto simp: length_Suc_conv numeral_eq_Suc)
  with assms(1) show ?thesis by simp
qed

text \<open>
  C10. A date \<open>d-m-y\<close> whose day and month are one or two digits and whose year is
  four digits is converted to \<open>y-mm-dd\<close>, day and month left-padded with \<open>0\<close>, and the
  result has the shape \<open>YYYY-MM-DD\<close>.
\<close>

theorem convertDateFormat_pads:
  assumes "list_all is_digit d" "1 \<le> length d" "length d \<le> 2"
    and "list_all is_digit m" "1 \<le> length m" "length m \<le> 2"
    and "list_all is_digit y" "length y = 4"
  shows "convertDateFormat (d @ ''-'' @ m @ ''-'' @ y)
           = y @ ''-'' @ padStart 2 CHR ''0'' m @ ''-'' @ padStart 2 CHR ''0'' d
         \<and> iso_shape (convertDateFormat (d @ ''-'' @ m @ ''-'' @ y))"
proof -
  have conv: "convertDateFormat (d @ ''-'' @ m @ ''-'' @ y)
      = y @ ''-'' @ padStart 2 CHR ''0'' m @ ''-'' @ padStart 2 CHR ''0'' d"
    using assms by (intro convertDateFormat_dmy digits_no_hyphen)
  obtain m1 m2 where pm: "padStart 2 CHR ''0'' m = [m1, m2]" "is_digit m1" "is_digit m2"
    using padStart_two_digits [OF assms(4-6)] by blast
  obtain d1 d2 where pd: "padStart 2 CHR ''0'' d = [d1, d2]" "is_digit d1" "is_digit d2"
    using padStart_two_digits [OF assms(1-3)] by blast
  obtain a b c e where py: "y = [a, b, c, e]" "is_digit a" "is_digit b" "is_digit c" "is_digit e"
    using four_digits [OF assms(7,8)] by blast
  have "iso_shape (y @ ''-'' @ padStart 2 CHR ''0'' m @ ''-'' @ padStart 2 CHR ''0'' d)"
    using pm pd py by (simp add: iso_shape_def)
  with conv show ?thesis by simp
qed

theorem convertDateFormat_pads_witness:
  "list_all is_digit ''5'' \<and> list_all is_digit ''3'' \<and> list_all is_digit ''2024''
   \<and> convertDateFormat ''5-3-2024'' = ''2024-03-05''
   \<and> iso_shape (convertDateFormat ''5-3-2024'')"
  using convertDateFormat_pads [of "''5''" "''3''" "''2024''"]
  by (auto simp: is_digit_def padStart_def)

section \<open>The engine never fails\<close>

subsection \<open>Closed form\<close>

lemma add_unseen_Nil [simp]: "add_unseen [] st = st"
  by (cases st) simp

lemma add_ticketmaster_eq:
  "add_ticketmaster w options st = Inr (add_unseen (live_events w options) st)"
  by (simp add: add_ticketmaster_def live_events_def searchTicketmasterEvents_def
      split: sum.splits)

lemma add_historical_eq:
  "add_historical w options st = Inr (add_unseen (historical_events w options) st)"
  by (simp add: add_historical_def historical_events_def searchSetlistFmEvents_def
      searchSetlists_def split: sum.splits)

lemma try_closed_form:
  "getConcertsWithHistorical_try w options
   = Inr (paginated options (filtered options (combined w options)))"
  by (simp add: getConcertsWithHistorical_try_def Let_def add_ticketmaster_eq
      add_historical_eq combined_def local_ids_def split: prod.splits)

lemma query_closed_form:
  "getConcertsWithHistorical w options
   = Inr (paginated options (filtered options (combined w options)))"
  by (simp add: getConcertsWithHistorical_def try_closed_form)

subsection \<open>Toggles\<close>

lemma where_clause_toggle [simp]:
  "where_clause (options\<lparr>includeTicketmaster := b\<rparr>) = where_clause options"
  "where_clause (options\<lparr>includeHistorical := b\<rparr>) = where_clause options"
  by (rule ext, simp add: where_clause_def)+

lemma getConcerts_toggle [simp]:
  "getConcerts d (options\<lparr>includeTicketmaster := b\<rparr>) = getConcerts d options"
  "getConcerts d (options\<lparr>includeHistorical := b\<rparr>) = getConcerts d options"
  by (simp_all add: getConcerts_def)

lemma filtered_toggle [simp]:
  "filtered (options\<lparr>includeTicketmaster := b\<rparr>) xs = filtered options xs"
  "filtered (options\<lparr>includeHistorical := b\<rparr>) xs = filtered options xs"
  by (simp_all add: filtered_def)

lemma paginated_toggle [simp]:
  "paginated (options\<lparr>includeTicketmaster := b\<rparr>) xs = paginated options xs"
  "paginated (options\<lparr>includeHistorical := b\<rparr>) xs = paginated options xs"
  by (simp_all add: paginated_def)

lemma live_events_off [simp]:
  "live_events w (options\<lparr>includeTicketmaster := False\<rparr>) = []"
  by (simp add: live_events_def)

lemma historical_events_off [simp]:
  "historical_events w (options\<lparr>includeHistorical := False\<rparr>) = []"
  by (simp add: historical_events_def)

lemma live_events_other_toggle [simp]:
  "live_events w (options\<lparr>includeHistorical := b\<rparr>) = live_events w options"
  by (simp add: live_events_def tmOptions_def)

lemma historical_events_other_toggle [simp]:
  "historical_events w (options\<lparr>includeTicketmaster := b\<rparr>) = historical_events w options"
  by (simp add: historical_events_def sfmOptions_def)

lemma live_events_failed:
  "searchEvents (consumerKey w) (ticketmaster w) (tmOptions options) = Inl e
   \<Longrightarrow> live_events w options = []"
  by (simp add: live_events_def)

lemma historical_events_failed:
  "searchSetlists_try (apiKey w) (setlistfm w) (sfmOptions options) = Inl e
   \<Longrightarrow> historical_events w options = []"
  by (simp add: historical_events_def)

lemma combined_live_off:
  "live_events w options = [] \<Longrightarrow>
   combined w (options\<lparr>includeTicketmaster := False\<rparr>) = combined w options"
  by (simp add: combined_def local_ids_def)

lemma combined_historical_off:
  "historical_events w options = [] \<Longrightarrow>
   combined w (options\<lparr>includeHistorical := False\<rparr>) = combined w options"
  by (simp add: combined_def local_ids_def)

lemma combined_local_only:
  "live_events w options = [] \<Longrightarrow> historical_events w options = [] \<Longrightarrow>
   combined w options = getConcerts (db w) options"
  by (simp add: combined_def)

text \<open>
  C1. A call of the engine always returns a list. When the live search raises, the
  result is the result of the same call with the live provider switched off; when
  the historical search fails, it is the result with the historical provider
  switched off. When the live search raises and the historical provider is off, the
  result is the catalog's own result, filtered and paginated by the engine.
\<close>

theorem provider_failure_not_propagated:
  "(\<exists>result. getConcertsWithHistorical w options = Inr result)
   \<and> (searchEvents (consumerKey w) (ticketmaster w) (tmOptions options) = Inl e
        \<longrightarrow> getConcertsWithHistorical w options
            = getConcertsWithHistorical w (options\<lparr>includeTicketmaster := False\<rparr>))
   \<and> (searchSetlists_try (apiKey w) (setlistfm w) (sfmOptions options) = Inl e'
        \<longrightarrow> getConcertsWithHistorical w options
            = getConcertsWithHistorical w (options\<lparr>includeHistorical := False\<rparr>))
   \<and> (searchEvents (consumerKey w) (ticketmaster w) (tmOptions options) = Inl e
        \<and> \<not> includeHistorical options
        \<longrightarrow> getConcertsWithHistorical w options
            = Inr (paginated options (filtered options (getConcerts (db w) options))))"
proof -
  have "\<exists>result. getConcertsWithHistorical w options = Inr result"
    by (simp add: query_closed_form)
  moreover have "getConcertsWithHistorical w options
      = getConcertsWithHistorical w (options\<lparr>includeTicketmaster := False\<rparr>)"
    if "searchEvents (consumerKey w) (ticketmaster w) (tmOptions options) = Inl e"
    using live_events_failed [OF that]
    by (simp add: query_closed_form combined_live_off)
  moreover have "getConcertsWithHistorical w options
      = getConcertsWithHistorical w (options\<lparr>includeHistorical := False\<rparr>)"
    if "searchSetlists_try (apiKey w) (setlistfm w) (sfmOptions options) = Inl e'"
    using historical_events_failed [OF that]
    by (simp add: query_closed_form combined_historical_off)
  moreover have "getConcertsWithHistorical w options
      = Inr (paginated options (filtered options (getConcerts (db w) options)))"
    if "searchEvents (consumerKey w) (ticketmaster w) (tmOptions options) = Inl e"
      and "\<not> includeHistorical options"
  proof -
    have "historical_events w options = []"
      using that(2) by (simp add: historical_events_def)
    with live_events_failed [OF that(1)] show ?thesis
      by (simp add: query_closed_form combined_local_only)
  qed
  ultimately show ?thesis by blast
qed

lemma failing_search:
  "searchEvents ''key'' (\<lambda>r. Response 500 Unparseable) options = Inl (ApiError 500)"
  by (simp add: searchEvents_def ok_def)

theorem provider_failure_not_propagated_witness:
  "searchEvents (consumerKey (live_world one_concert (Response 500 Unparseable) 7))
     (ticketmaster (live_world one_concert (Response 500 Unparseable) 7)) (tmOptions live_only)
     = Inl (ApiError 500)
   \<and> \<not> includeHistorical live_only
   \<and> getConcertsWithHistorical (live_world one_concert (Response 500 Unparseable) 7) live_only
     = Inr [with_rating midnight_reviews midnight]"
proof -
  let ?w = "live_world one_concert (Response 500 Unparseable) 7"
  have f: "searchEvents (consumerKey ?w) (ticketmaster ?w) (tmOptions live_only)
     = Inl (ApiError 500)"
    by (simp add: live_world_def failing_search)
  have h: "\<not> includeHistorical live_only"
    by (simp add: live_only_def no_options_def)
  have local: "paginated live_only (filtered live_only (getConcerts (db ?w) live_only))
     = [with_rating midnight_reviews midnight]"
    by code_simp
  from provider_failure_not_propagated [of ?w live_only "ApiError 500"] f h
  have "getConcertsWithHistorical ?w live_only
     = Inr (paginated live_only (filtered live_only (getConcerts (db ?w) live_only)))"
    by blast
  with f h local show ?thesis by simp
qed

section \<open>The provider clients\<close>

text \<open>
  C9. \<open>searchSetlists\<close> returns a list for every key, provider and options, and the
  empty list when the key is missing, the network fails, the status is not 2xx
  (404 or any other), or the body cannot be parsed. The engine's step that adds
  the historical records therefore never raises, and leaves the combined list as it
  was when the search fails.
\<close>

theorem searchSetlists_never_raises:
  "(\<exists>found. searchSetlists key fetch options = Inr found)
   \<and> (key = [] \<longrightarrow> searchSetlists key fetch options = Inr [])
   \<and> (fetch (setlists_request key options) = NetworkFailure
        \<longrightarrow> searchSetlists key fetch options = Inr [])
   \<and> (fetch (setlists_request key options) = Response status b \<and> \<not> ok status
        \<longrightarrow> searchSetlists key fetch options = Inr [])
   \<and> (fetch (setlists_request key options) = Response status Unparseable
        \<longrightarrow> searchSetlists key fetch options = Inr [])
   \<and> (\<exists>st'. add_historical w query st = Inr st')
   \<and> (searchSetlists_try (apiKey w) (setlistfm w) (sfmOptions query) = Inl e
        \<longrightarrow> add_historical w query st = Inr st)"
proof -
  have "\<exists>found. searchSetlists key fetch options = Inr found"
    by (simp add: searchSetlists_def split: sum.split)
  moreover have "searchSetlists key fetch options = Inr []" if "key = []"
    using that by (simp add: searchSetlists_def searchSetlists_try_def)
  moreover have "searchSetlists key fetch options = Inr []"
    if "fetch (setlists_request key options) = NetworkFailure"
    using that by (simp add: searchSetlists_def searchSetlists_try_def)
  moreover have "searchSetlists key fetch options = Inr []"
    if "fetch (setlists_request key options) = Response status b \<and> \<not> ok status"
    using that by (simp add: searchSetlists_def searchSetlists_try_def)
  moreover have "searchSetlists key fetch options = Inr []"
    if "fetch (setlists_request key options) = Response status Unparseable"
    using that by (simp add: searchSetlists_def searchSetlists_try_def)
  moreover have "\<exists>st'. add_historical w query st = Inr st'"
    by (simp add: add_historical_eq)
  moreover have "add_historical w query st = Inr st"
    if "searchSetlists_try (apiKey w) (setlistfm w) (sfmOptions query) = Inl e"
    using historical_events_failed [OF that] by (simp add: add_historical_eq)
  ultimately show ?thesis by blast
qed

theorem searchSetlists_never_raises_witness:
  "(\<lambda>r. Response 503 Unparseable) (setlists_request ''key'' no_setlist_options)
     = (Response 503 Unparseable :: SetlistFmSetlist list option outcome)
   \<and> \<not> ok 503
   \<and> searchSetlists ''key'' (\<lambda>r. Response 503 Unparseable) no_setlist_options = Inr []"
proof -
  have "\<not> ok 503" by (simp add: ok_def)
  with searchSetlists_never_raises
    [of "''key''" "\<lambda>r. Response 503 Unparseable" no_setlist_options 503 Unparseable]
  show ?thesis by simp
qed

text \<open>
  C7. With a key configured, \<open>searchEvents\<close> raises on a response with status 404
  as on any other status outside 2xx; \<open>getEvent\<close> of the same client answers a 404
  with \<open>null\<close>.
\<close>

theorem searchEvents_not_found_raises:
  "searchEvents ''key'' (\<lambda>r. Response 404 Unparseable) no_search_options = Inl (ApiError 404)
   \<and> getEvent ''key'' (\<lambda>r. Response 404 Unparseable) ''123'' = Inr None"
  by (simp add: searchEvents_def getEvent_def ok_def)

text \<open>
  C8. A date with a single separator is neither converted nor passed through: the
  missing year is printed as the word \<open>undefined\<close>.
\<close>

theorem convertDateFormat_two_parts:
  "convertDateFormat ''05-03'' = ''undefined-03-05''"
  by (simp add: convertDateFormat_def convertDateFormat_try_def template_def padStart_def)


section \<open>The merge\<close>

lemma add_unseen_unseen:
  "add_unseen cs (xs, ids) = (xs @ unseen ids cs, ids \<union> concert_id ` set cs)"
  by (induction cs arbitrary: xs ids) auto

lemma unseen_subset: "set (unseen ids cs) \<subseteq> set cs"
  by (induction cs arbitrary: ids) auto

lemma unseen_fresh: "x \<in> set (unseen ids cs) \<Longrightarrow> concert_id x \<notin> ids"
  by (induction cs arbitrary: ids) (auto split: if_splits)

lemma unseen_distinct: "distinct (map concert_id (unseen ids cs))"
  by (induction cs arbitrary: ids) (auto dest: unseen_fresh)

lemma unseen_map:
  assumes "\<And>c. concert_id (g c) = concert_id c"
  shows "unseen ids (map g cs) = map g (unseen ids cs)"
  by (induction cs arbitrary: ids) (simp_all add: assms)

lemma combined_eq:
  "combined w options
   = getConcerts (db w) options
     @ unseen (local_ids w options) (live_events w options)
     @ unseen (local_ids w options \<union> concert_id ` set (live_events w options))
         (historical_events w options)"
  by (simp add: combined_def add_unseen_unseen)

lemma combined_distinct:
  assumes "distinct (map concert_id (getConcerts (db w) options))"
  shows "distinct (map concert_id (combined w options))"
proof -
  let ?l = "unseen (local_ids w options) (live_events w options)"
  let ?h = "unseen (local_ids w options \<union> concert_id ` set (live_events w options))
         (historical_events w options)"
  have "concert_id ` set ?l \<inter> concert_id ` set (getConcerts (db w) options) = {}"
    using unseen_fresh [of _ "local_ids w options"] by (auto simp: local_ids_def)
  moreover have "concert_id ` set ?h \<inter> concert_id ` set (getConcerts (db w) options) = {}"
    using unseen_fresh [of _ "local_ids w options \<union> concert_id ` set (live_events w options)"]
    by (auto simp: local_ids_def)
  moreover have "concert_id ` set ?h \<inter> concert_id ` set ?l = {}"
    using unseen_fresh [of _ "local_ids w options \<union> concert_id ` set (live_events w options)"]
      unseen_subset [of "local_ids w options" "live_events w options"]
    by auto
  ultimately show ?thesis
    using assms by (auto simp: combined_eq unseen_distinct)
qed

lemma combined_local:
  assumes "x \<in> set (combined w options)" "concert_id x \<in> local_ids w options"
  shows "x \<in> set (getConcerts (db w) options)"
  using assms unseen_fresh [of x "local_ids w options"]
    unseen_fresh [of x "local_ids w options \<union> concert_id ` set (live_events w options)"]
  by (auto simp: combined_eq)

lemma concert_id_with_rating [simp]: "concert_id (with_rating rs c) = concert_id c"
  by (simp add: with_rating_def Let_def)

lemma getConcerts_distinct:
  assumes "distinct (map concert_id (concerts d))"
  shows "distinct (map concert_id (getConcerts d options))"
proof -
  let ?rows = "filter (where_clause options) (concerts d)"
  let ?ordered = "sort_key (\<lambda>c. map_option uminus (createdAt c)) ?rows"
  have "distinct (map concert_id ?rows)"
    using assms by (rule distinct_map_filter)
  then have "distinct (map concert_id ?ordered)"
    by (simp add: distinct_map)
  then have "distinct (take lim (drop off (map concert_id ?ordered)))" for lim off
    by simp
  then show ?thesis
    by (simp add: getConcerts_def Let_def o_def take_map drop_map)
qed

lemma filtered_subset: "set (filtered options xs) \<subseteq> set xs"
  by (auto simp: filtered_def Let_def)

lemma filtered_distinct:
  "distinct (map concert_id xs) \<Longrightarrow> distinct (map concert_id (filtered options xs))"
  by (simp add: filtered_def Let_def distinct_map_filter)

lemma paginated_subset: "set (paginated options xs) \<subseteq> set xs"
  by (auto simp: paginated_def Let_def slice_def dest: in_set_takeD in_set_dropD)

lemma paginated_distinct:
  assumes "distinct (map concert_id xs)"
  shows "distinct (map concert_id (paginated options xs))"
proof -
  have "distinct (take n (drop k (map concert_id xs)))" for n k
    using assms by simp
  then show ?thesis
    by (simp add: paginated_def Let_def slice_def take_map drop_map)
qed

lemma result_subset: "set (paginated options (filtered options xs)) \<subseteq> set xs"
  using paginated_subset filtered_subset by blast

text \<open>
  C4. When the ids of the \<open>concerts\<close> table are distinct (\<open>id\<close> is its primary key),
  no two entries of the engine's result share an id, whatever the providers answer,
  and an entry whose id is the id of a catalog record of the call is that catalog
  record.
\<close>

theorem result_ids_distinct:
  assumes "distinct (map concert_id (concerts (db w)))"
  shows "\<exists>result. getConcertsWithHistorical w options = Inr result
           \<and> distinct (map concert_id result)
           \<and> (\<forall>x \<in> set result. concert_id x \<in> local_ids w options
                 \<longrightarrow> x \<in> set (getConcerts (db w) options))"
proof -
  let ?result = "paginated options (filtered options (combined w options))"
  have "distinct (map concert_id (combined w options))"
    using assms by (intro combined_distinct getConcerts_distinct)
  then have "distinct (map concert_id ?result)"
    by (intro paginated_distinct filtered_distinct)
  moreover have "x \<in> set (getConcerts (db w) options)"
    if "x \<in> set ?result" "concert_id x \<in> local_ids w options" for x
    using that result_subset [of options "combined w options"] combined_local by blast
  ultimately show ?thesis
    by (auto simp: query_closed_form)
qed


theorem result_ids_distinct_witness:
  "distinct (map concert_id (concerts (db (live_world with_upsert
       (Response 200 (Parsed (Some [event123, event456, event123, event456]))) 7))))
   \<and> (\<exists>result. getConcertsWithHistorical (live_world with_upsert
           (Response 200 (Parsed (Some [event123, event456, event123, event456]))) 7) live_only
         = Inr result
       \<and> distinct (map concert_id result)
       \<and> map concert_id result = [''tm_123'', ''c1'', ''tm_456''])"
proof -
  let ?w = "live_world with_upsert
       (Response 200 (Parsed (Some [event123, event456, event123, event456]))) 7"
  have h: "distinct (map concert_id (concerts (db ?w)))"
    by code_simp
  have ids: "map concert_id (case getConcertsWithHistorical ?w live_only of
                               Inr result \<Rightarrow> result | Inl e \<Rightarrow> [])
             = [''tm_123'', ''c1'', ''tm_456'']"
    by code_simp
  from result_ids_distinct [OF h, of live_only] obtain result
    where r: "getConcertsWithHistorical ?w live_only = Inr result"
      "distinct (map concert_id result)"
    by blast
  from ids r(1) have "map concert_id result = [''tm_123'', ''c1'', ''tm_456'']"
    by simp
  with h r show ?thesis by (intro conjI exI [of _ result])
qed


section \<open>Rating aggregates\<close>

lemma external_fields [simp]:
  "concert_id (external t c) = concert_id c"
  "averageRating (external t c) = None"
  "performanceRating (external t c) = None"
  "soundRating (external t c) = None"
  "venueRating (external t c) = None"
  "valueRating (external t c) = None"
  "reviewCount (external t c) = Some 0"
  by (simp_all add: external_def)

lemma live_events_raw:
  "\<exists>raw. \<forall>t. live_events (w\<lparr>now := t\<rparr>) options = map (external t) raw"
proof (cases "searchEvents (consumerKey w) (ticketmaster w) (tmOptions options)")
  case (Inl e)
  then have "live_events (w\<lparr>now := t\<rparr>) options = map (external t) []" for t
    by (simp add: live_events_def)
  then show ?thesis by blast
next
  case (Inr events)
  show ?thesis
  proof (cases "includeTicketmaster options")
    case True
    with Inr have "live_events (w\<lparr>now := t\<rparr>) options
        = map (external t) (map transformEvent events)" for t
      by (simp add: live_events_def)
    then show ?thesis by blast
  next
    case False
    then have "live_events (w\<lparr>now := t\<rparr>) options = map (external t) []" for t
      by (simp add: live_events_def)
    then show ?thesis by blast
  qed
qed

lemma historical_events_raw:
  "\<exists>raw. \<forall>t. historical_events (w\<lparr>now := t\<rparr>) options = map (external t) raw"
proof (cases "searchSetlists_try (apiKey w) (setlistfm w) (sfmOptions options)")
  case (Inl e)
  then have "historical_events (w\<lparr>now := t\<rparr>) options = map (external t) []" for t
    by (simp add: historical_events_def)
  then show ?thesis by blast
next
  case (Inr setlists)
  show ?thesis
  proof (cases "includeHistorical options")
    case True
    with Inr have "historical_events (w\<lparr>now := t\<rparr>) options
        = map (external t) (map transformSetlist setlists)" for t
      by (simp add: historical_events_def)
    then show ?thesis by blast
  next
    case False
    then have "historical_events (w\<lparr>now := t\<rparr>) options = map (external t) []" for t
      by (simp add: historical_events_def)
    then show ?thesis by blast
  qed
qed

lemma live_events_external:
  assumes "x \<in> set (live_events w options)"
  shows "\<exists>c. x = external (now w) c"
proof -
  obtain raw where "live_events (w\<lparr>now := now w\<rparr>) options = map (external (now w)) raw"
    using live_events_raw by blast
  with assms show ?thesis by auto
qed

lemma historical_events_external:
  assumes "x \<in> set (historical_events w options)"
  shows "\<exists>c. x = external (now w) c"
proof -
  obtain raw where
    "historical_events (w\<lparr>now := now w\<rparr>) options = map (external (now w)) raw"
    using historical_events_raw by blast
  with assms show ?thesis by auto
qed

lemma combined_external:
  assumes "x \<in> set (combined w options)" "concert_id x \<notin> local_ids w options"
  shows "\<exists>c. x = external (now w) c"
proof -
  from assms(2) have "x \<notin> set (getConcerts (db w) options)"
    by (auto simp: local_ids_def)
  with assms(1) have "x \<in> set (live_events w options) \<or> x \<in> set (historical_events w options)"
    using unseen_subset by (auto simp: combined_eq)
  then show ?thesis
    using live_events_external historical_events_external by blast
qed

lemma avg_present: "xs \<noteq> [] \<Longrightarrow> avg (map f xs) \<noteq> None"
  by (simp add: avg_def)

lemma getConcerts_with_rating:
  "x \<in> set (getConcerts d options) \<Longrightarrow> \<exists>c. x = with_rating (reviews d) c"
  by (auto simp: getConcerts_def Let_def)

lemma with_rating_reviewed:
  assumes "has_review d (concert_id c)"
  shows "averageRating (with_rating (reviews d) c) \<noteq> None"
    "performanceRating (with_rating (reviews d) c) \<noteq> None"
    "soundRating (with_rating (reviews d) c) \<noteq> None"
    "venueRating (with_rating (reviews d) c) \<noteq> None"
    "valueRating (with_rating (reviews d) c) \<noteq> None"
    "\<exists>n. reviewCount (with_rating (reviews d) c) = Some (Suc n)"
  using assms
  by (simp_all add: with_rating_def Let_def has_review_def avg_present
      length_greater_0_conv [symmetric] gr0_conv_Suc del: length_greater_0_conv)

text \<open>
  C6, as amended. For every entry of the engine's result: when its id is not the id
  of a catalog record of the call, the five averages are absent and \<open>reviewCount\<close>
  is 0; when its id is one, and the concert has a review, the five averages and
  \<open>reviewCount\<close> are present and \<open>reviewCount\<close> is positive.
\<close>

theorem rating_aggregates:
  "\<exists>result. getConcertsWithHistorical w options = Inr result
     \<and> (\<forall>x \<in> set result.
          (concert_id x \<notin> local_ids w options
           \<longrightarrow> averageRating x = None \<and> performanceRating x = None \<and> soundRating x = None
               \<and> venueRating x = None \<and> valueRating x = None \<and> reviewCount x = Some 0)
        \<and> (concert_id x \<in> local_ids w options \<and> has_review (db w) (concert_id x)
           \<longrightarrow> averageRating x \<noteq> None \<and> performanceRating x \<noteq> None \<and> soundRating x \<noteq> None
               \<and> venueRating x \<noteq> None \<and> valueRating x \<noteq> None
               \<and> (\<exists>n. reviewCount x = Some (Suc n))))"
proof -
  let ?result = "paginated options (filtered options (combined w options))"
  have provider: "averageRating x = None \<and> performanceRating x = None \<and> soundRating x = None
               \<and> venueRating x = None \<and> valueRating x = None \<and> reviewCount x = Some 0"
    if "x \<in> set ?result" "concert_id x \<notin> local_ids w options" for x
  proof -
    from that(1) have "x \<in> set (combined w options)"
      using result_subset by blast
    from combined_external [OF this that(2)] show ?thesis by auto
  qed
  have catalog: "averageRating x \<noteq> None \<and> performanceRating x \<noteq> None \<and> soundRating x \<noteq> None
               \<and> venueRating x \<noteq> None \<and> valueRating x \<noteq> None
               \<and> (\<exists>n. reviewCount x = Some (Suc n))"
    if "x \<in> set ?result" "concert_id x \<in> local_ids w options"
      "has_review (db w) (concert_id x)" for x
  proof -
    from that(1) have "x \<in> set (combined w options)"
      using result_subset by blast
    from combined_local [OF this that(2)] obtain c where x: "x = with_rating (reviews (db w)) c"
      using getConcerts_with_rating by blast
    with that(3) have "has_review (db w) (concert_id c)" by simp
    from with_rating_reviewed [OF this] x show ?thesis by simp
  qed
  show ?thesis
    using provider catalog by (auto simp: query_closed_form)
qed

theorem rating_aggregates_witness:
  "getConcertsWithHistorical (live_world one_concert (Response 200 (Parsed (Some [event123]))) 7)
      live_only
     = Inr [with_rating midnight_reviews midnight, external 7 (transformEvent event123)]
   \<and> concert_id (external 7 (transformEvent event123))
       \<notin> local_ids (live_world one_concert (Response 200 (Parsed (Some [event123]))) 7) live_only
   \<and> averageRating (external 7 (transformEvent event123)) = None
   \<and> reviewCount (external 7 (transformEvent event123)) = Some 0
   \<and> concert_id (with_rating midnight_reviews midnight)
       \<in> local_ids (live_world one_concert (Response 200 (Parsed (Some [event123]))) 7) live_only
   \<and> has_review (db (live_world one_concert (Response 200 (Parsed (Some [event123]))) 7))
       (concert_id (with_rating midnight_reviews midnight))
   \<and> averageRating (with_rating midnight_reviews midnight) \<noteq> None"
proof -
  let ?w = "live_world one_concert (Response 200 (Parsed (Some [event123]))) 7"
  let ?a = "with_rating midnight_reviews midnight"
  let ?b = "external 7 (transformEvent event123)"
  have r: "getConcertsWithHistorical ?w live_only = Inr [?a, ?b]"
    by code_simp
  have hb: "concert_id ?b \<notin> local_ids ?w live_only"
    by code_simp
  have ha: "concert_id ?a \<in> local_ids ?w live_only" "has_review (db ?w) (concert_id ?a)"
    by code_simp+
  from rating_aggregates [of ?w live_only] r
  have all: "\<forall>x \<in> set [?a, ?b].
          (concert_id x \<notin> local_ids ?w live_only
           \<longrightarrow> averageRating x = None \<and> performanceRating x = None \<and> soundRating x = None
               \<and> venueRating x = None \<and> valueRating x = None \<and> reviewCount x = Some 0)
        \<and> (concert_id x \<in> local_ids ?w live_only \<and> has_review (db ?w) (concert_id x)
           \<longrightarrow> averageRating x \<noteq> None \<and> performanceRating x \<noteq> None \<and> soundRating x \<noteq> None
               \<and> venueRating x \<noteq> None \<and> valueRating x \<noteq> None
               \<and> (\<exists>n. reviewCount x = Some (Suc n)))"
    by auto
  from all hb have "averageRating ?b = None \<and> reviewCount ?b = Some 0"
    by simp
  moreover from all ha have "averageRating ?a \<noteq> None"
    by simp
  ultimately show ?thesis
    using r hb ha by (intro conjI) simp_all
qed

text \<open>
  C6 as stated fails: the record of a live event in the result has a \<open>reviewCount\<close>,
  namely 0.
\<close>

theorem provider_reviewCount_present:
  "getConcertsWithHistorical (live_world one_concert (Response 200 (Parsed (Some [event123]))) 7)
      live_only
     = Inr [with_rating midnight_reviews midnight, external 7 (transformEvent event123)]
   \<and> concert_id (external 7 (transformEvent event123))
       \<notin> local_ids (live_world one_concert (Response 200 (Parsed (Some [event123]))) 7) live_only
   \<and> reviewCount (external 7 (transformEvent event123)) \<noteq> None"
  by code_simp


section \<open>Repeating a call\<close>

lemma untimed_fields:
  "artist (untimed c) = artist c" "venue (untimed c) = venue c" "city (untimed c) = city c"
  "genre (untimed c) = genre c" "concert_id (untimed c) = concert_id c"
  by (simp_all add: untimed_def)

lemma untimed_external: "untimed (external t c) = untimed (external t' c)"
  by (simp add: untimed_def external_def)

lemma same_entry_untimed: "same_entry ids a b \<Longrightarrow> untimed a = untimed b"
  by (auto simp: same_entry_def split: if_splits)

lemma same_entry_refl: "same_entry ids a a"
  by (simp add: same_entry_def)

lemma same_entry_matches_search:
  assumes "same_entry ids a b"
  shows "matches_search s a = matches_search s b"
proof -
  from assms have "untimed a = untimed b" by (rule same_entry_untimed)
  then have "artist a = artist b" "venue a = venue b" "city a = city b"
    using untimed_fields by metis+
  then show ?thesis by (simp add: matches_search_def)
qed

lemma same_entry_matches_genre:
  assumes "same_entry ids a b"
  shows "matches_genre g a = matches_genre g b"
proof -
  from assms have "untimed a = untimed b" by (rule same_entry_untimed)
  then have "genre a = genre b"
    using untimed_fields by metis
  then show ?thesis by (simp add: matches_genre_def)
qed

lemma list_all2_filter:
  assumes "list_all2 R xs ys" "\<And>x y. R x y \<Longrightarrow> P x = P y"
  shows "list_all2 R (filter P xs) (filter P ys)"
  using assms by (induction rule: list_all2_induct) auto

lemma filtered_same:
  assumes "list_all2 (same_entry ids) xs ys"
  shows "list_all2 (same_entry ids) (filtered options xs) (filtered options ys)"
  using assms
  by (auto simp: filtered_def Let_def intro!: list_all2_filter
      dest: same_entry_matches_search same_entry_matches_genre)

lemma paginated_same:
  assumes "list_all2 R xs ys"
  shows "list_all2 R (paginated options xs) (paginated options ys)"
  using assms by (simp add: paginated_def Let_def slice_def)

lemma external_same:
  assumes "\<And>c. c \<in> set cs \<Longrightarrow> concert_id c \<notin> ids"
  shows "list_all2 (same_entry ids) (map (external t) cs) (map (external t') cs)"
  using assms
  by (simp add: list_all2_map1 list_all2_map2 list_all2_same same_entry_def untimed_external)

lemma local_ids_now [simp]: "local_ids (w\<lparr>now := t\<rparr>) options = local_ids w options"
  by (simp add: local_ids_def)

lemma combined_same:
  "list_all2 (same_entry (local_ids w options))
     (combined (w\<lparr>now := t\<rparr>) options) (combined (w\<lparr>now := t'\<rparr>) options)"
proof -
  let ?ids = "local_ids w options"
  obtain live where live: "\<And>t. live_events (w\<lparr>now := t\<rparr>) options = map (external t) live"
    using live_events_raw by blast
  obtain hist where hist: "\<And>t. historical_events (w\<lparr>now := t\<rparr>) options = map (external t) hist"
    using historical_events_raw by blast
  have ids: "concert_id ` set (map (external s) live) = concert_id ` set live" for s
    by (simp add: image_image)
  have eq: "combined (w\<lparr>now := s\<rparr>) options
      = getConcerts (db w) options
        @ map (external s) (unseen ?ids live)
        @ map (external s) (unseen (?ids \<union> concert_id ` set live) hist)" for s
    by (simp add: combined_eq live hist unseen_map image_image)
  have "list_all2 (same_entry ?ids) (getConcerts (db w) options) (getConcerts (db w) options)"
    by (simp add: list_all2_same same_entry_refl)
  moreover have "list_all2 (same_entry ?ids)
      (map (external t) (unseen ?ids live)) (map (external t') (unseen ?ids live))"
    by (rule external_same) (rule unseen_fresh)
  moreover have "list_all2 (same_entry ?ids)
      (map (external t) (unseen (?ids \<union> concert_id ` set live) hist))
      (map (external t') (unseen (?ids \<union> concert_id ` set live) hist))"
    by (rule external_same) (use unseen_fresh in blast)
  ultimately show ?thesis
    by (simp add: eq list_all2_appendI)
qed

text \<open>
  C5, as amended. Two calls with the same argument on the same database and
  provider answers, at clock readings \<open>t\<close> and \<open>t'\<close>, return lists of the same
  length that agree entry by entry: an entry whose id is a catalog id of the call is
  the same in both, any other entry is the same up to \<open>createdAt\<close> and \<open>updatedAt\<close>.
\<close>

theorem repeated_query_same_up_to_times:
  "\<exists>r r'. getConcertsWithHistorical (w\<lparr>now := t\<rparr>) options = Inr r
         \<and> getConcertsWithHistorical (w\<lparr>now := t'\<rparr>) options = Inr r'
         \<and> list_all2 (same_entry (local_ids w options)) r r'"
  by (simp add: query_closed_form paginated_same filtered_same combined_same)

text \<open>
  C5 as stated fails: with a live event in the result, the calls at clock readings
  1 and 2 differ.
\<close>

theorem repeated_query_differs:
  "getConcertsWithHistorical
     (live_world one_concert (Response 200 (Parsed (Some [event123]))) 1) live_only
   \<noteq> getConcertsWithHistorical
     (live_world one_concert (Response 200 (Parsed (Some [event123]))) 2) live_only"
  by code_simp

section \<open>Pagination\<close>

text \<open>
  C2. With both providers off and offset 1 on a catalog of two concerts, the
  catalog's query returns the second concert and the engine returns nothing: the
  offset is applied by the query and again by the final \<open>slice\<close>.
\<close>

theorem toggles_off_offset_applied_twice:
  "getConcerts two_concerts (no_options\<lparr>offset := Some 1\<rparr>)
     = [with_rating midnight_reviews daylight]
   \<and> getConcertsWithHistorical (live_world two_concerts NetworkFailure 0)
       (no_options\<lparr>offset := Some 1\<rparr>) = Inr []"
  by code_simp

text \<open>
  C3. With limit 0 and the live provider on, the engine returns the provider's
  event: \<open>options.limit || 20\<close> asks the provider for 20 events and
  \<open>options.limit || 50\<close> slices 50 of them.
\<close>

theorem limit_zero_returns_events:
  "getConcertsWithHistorical
     (live_world one_concert (Response 200 (Parsed (Some [event123]))) 7)
     (live_only\<lparr>limit := Some 0\<rparr>)
   = Inr [external 7 (transformEvent event123)]"
  by code_simp


section \<open>What holds beside the failing cases\<close>

lemma searchEvents_no_key: "searchEvents [] fetch options = Inr []"
  by (simp add: searchEvents_def)

lemma searchEvents_not_ok:
  assumes "key \<noteq> []" "fetch (events_request key options) = Response status b" "\<not> ok status"
  shows "searchEvents key fetch options = Inl (ApiError status)"
  using assms by (simp add: searchEvents_def)

lemma convertDateFormat_scenario: "convertDateFormat ''05-03-2024'' = ''2024-03-05''"
  by (simp add: convertDateFormat_def convertDateFormat_try_def template_def padStart_def)

lemma convertDateFormat_no_separator:
  "CHR ''-'' \<notin> set s \<Longrightarrow> convertDateFormat s = s"
  by (simp add: convertDateFormat_def convertDateFormat_try_def split_no_sep)

lemma convertDateFormat_on_error:
  "convertDateFormat_try s = Inl e \<Longrightarrow> convertDateFormat s = s"
  by (simp add: convertDateFormat_def)

lemma startsWith_self: "startsWith s s"
  by (induction s) auto

lemma includes_str_self: "includes_str s s"
  by (cases s) (simp_all add: startsWith_self)

lemma getConcerts_length:
  "length (getConcerts d options) \<le> (case limit options of None \<Rightarrow> 20 | Some n \<Rightarrow> n)"
  by (simp add: getConcerts_def Let_def)

lemma getConcerts_genre:
  assumes "x \<in> set (getConcerts d options)" "truthy (q_genre options)"
  shows "genre x = q_genre options"
proof -
  from assms(1) obtain c where "c \<in> set (filter (where_clause options) (concerts d))"
    and x: "x = with_rating (reviews d) c"
    by (auto simp: getConcerts_def Let_def dest!: in_set_takeD in_set_dropD)
  with assms(2) have "genre c = q_genre options"
    by (simp add: where_clause_def)
  with x show ?thesis by (simp add: with_rating_def Let_def)
qed

lemma first_page_unchanged:
  assumes "\<not> includeTicketmaster options" "\<not> includeHistorical options"
    and "or_num (offset options) 0 = 0" "\<not> truthy (search options)"
  shows "getConcertsWithHistorical w options = Inr (getConcerts (db w) options)"
proof -
  let ?db = "getConcerts (db w) options"
  have c: "combined w options = ?db"
    using assms(1,2) by (simp add: combined_def live_events_def historical_events_def)
  have f: "filtered options ?db = ?db"
  proof (cases "truthy (q_genre options)")
    case True
    then obtain g where g: "q_genre options = Some g"
      by (auto simp: truthy_def split: option.splits)
    have "matches_genre (toLowerCase g) x" if "x \<in> set ?db" for x
      using getConcerts_genre [OF that True] g
      by (simp add: matches_genre_def includes_str_self)
    then show ?thesis
      using assms(4) True g by (simp add: filtered_def)
  next
    case False
    with assms(4) show ?thesis by (simp add: filtered_def)
  qed
  have "length ?db \<le> or_num (limit options) 50"
    using getConcerts_length [of "db w" options]
    by (auto simp: or_num_def split: option.splits)
  then have "paginated options ?db = ?db"
    using assms(3) by (simp add: paginated_def Let_def slice_def)
  with c f show ?thesis
    by (simp add: query_closed_form)
qed

lemma limit_zero_local_only:
  assumes "\<not> includeTicketmaster options" "\<not> includeHistorical options"
    and "limit options = Some 0"
  shows "getConcertsWithHistorical w options = Inr []"
proof -
  have "getConcerts (db w) options = []"
    using assms(3) by (simp add: getConcerts_def)
  then have "combined w options = []"
    using assms(1,2) by (simp add: combined_def live_events_def historical_events_def)
  then show ?thesis
    by (simp add: query_closed_form filtered_def paginated_def slice_def Let_def)
qed


end
